theory Spec2Isabelle
  imports Main "HOL-Library.Word" "HOL-Library.Multiset" "HOL-Library.Sublist"
begin

section \<open>The data the evaluator reads\<close>

text \<open>
  The Go function \<^verbatim>\<open>DetermineIfTechnicallyConstrained\<close> of package \<^verbatim>\<open>gx509\<close> reads six
  fields of an \<^verbatim>\<open>x509.Certificate\<close>. The types below follow the Go declarations:
  \<^verbatim>\<open>type ExtKeyUsage int\<close> with its \<^verbatim>\<open>iota\<close> constants, \<^verbatim>\<open>net.IP\<close> and \<^verbatim>\<open>net.IPMask\<close> as
  byte slices, \<^verbatim>\<open>net.IPNet\<close> as a struct of the two, and a \<^verbatim>\<open>time.Time\<close> as the instant it
  denotes (seconds since the Unix epoch and nanoseconds within the second). The two lists
  of IP subtrees hold \<^verbatim>\<open>net.IPNet\<close> values, as the test file of the package builds them
  (\<^verbatim>\<open>[]net.IPNet{...}\<close>). The record is extensible: the fields of a certificate that the
  function does not read are the three named ones after \<open>NotBefore\<close> and the rest of the
  scheme.
\<close>

type_synonym byte = "8 word"

type_synonym ExtKeyUsage = int

definition ExtKeyUsageAny :: ExtKeyUsage where
  "ExtKeyUsageAny = 0"

definition ExtKeyUsageServerAuth :: ExtKeyUsage where
  "ExtKeyUsageServerAuth = 1"

definition ExtKeyUsageClientAuth :: ExtKeyUsage where
  "ExtKeyUsageClientAuth = 2"

definition ExtKeyUsageNetscapeServerGatedCrypto :: ExtKeyUsage where
  "ExtKeyUsageNetscapeServerGatedCrypto = 11"

record Time =
  sec :: int
  nsec :: int

record IPNet =
  IP :: "byte list"
  Mask :: "byte list"

record Certificate =
  ExtKeyUsage :: "ExtKeyUsage list"
  NotBefore :: Time
  NotAfter :: Time
  BasicConstraintsValid :: bool
  IsCA :: bool
  PermittedDNSDomains :: "string list"
  ExcludedDNSDomains :: "string list"
  PermittedIPAddresses :: "IPNet list"
  ExcludedIPAddresses :: "IPNet list"

section \<open>The library operations the evaluator calls\<close>

text \<open>
  \<^verbatim>\<open>time.Time.Before\<close> compares two instants: first the seconds, then the nanoseconds.
\<close>

definition Before :: "Time \<Rightarrow> Time \<Rightarrow> bool" where
  "Before t u = (sec t < sec u \<or> (sec t = sec u \<and> nsec t < nsec u))"

text \<open>
  \<^verbatim>\<open>time.Date(year, month, day, hour, min, sec, nsec, time.UTC)\<close> for a date and a time of day
  that are in range (the only call of the source is): the days between 1970-01-01 and the
  date in the proleptic Gregorian calendar, times 86400, plus the seconds of the day.
\<close>

definition daysSinceEpoch :: "int \<Rightarrow> int \<Rightarrow> int \<Rightarrow> int" where
  "daysSinceEpoch year month day =
     (let y = (if month \<le> 2 then year - 1 else year);
          era = y div 400;
          yoe = y - era * 400;
          mp = (if 2 < month then month - 3 else month + 9);
          doy = (153 * mp + 2) div 5 + day - 1;
          doe = yoe * 365 + yoe div 4 - yoe div 100 + doy
      in era * 146097 + doe - 719468)"

definition Date :: "int \<Rightarrow> int \<Rightarrow> int \<Rightarrow> int \<Rightarrow> int \<Rightarrow> int \<Rightarrow> int \<Rightarrow> Time" where
  "Date year month day hour minute second nanosecond =
     \<lparr>sec = daysSinceEpoch year month day * 86400 + hour * 3600 + minute * 60 + second,
      nsec = nanosecond\<rparr>"

definition August :: int where
  "August = 8"

text \<open>
  \<^verbatim>\<open>net.IPv4len\<close>, \<^verbatim>\<open>net.IPv6len\<close>, \<^verbatim>\<open>net.IPv4zero\<close> (which Go builds with \<^verbatim>\<open>IPv4(0, 0, 0, 0)\<close>,
  the 16-byte IPv4-in-IPv6 form) and \<^verbatim>\<open>net.IPv6zero\<close>.
\<close>

definition IPv4len :: int where
  "IPv4len = 4"

definition IPv6len :: int where
  "IPv6len = 16"

definition v4InV6Prefix :: "byte list" where
  "v4InV6Prefix = [0, 0, 0, 0, 0, 0, 0, 0, 0, 0, 0xff, 0xff]"

definition IPv4zero :: "byte list" where
  "IPv4zero = v4InV6Prefix @ [0, 0, 0, 0]"

definition IPv6zero :: "byte list" where
  "IPv6zero = [0, 0, 0, 0, 0, 0, 0, 0, 0, 0, 0, 0, 0, 0, 0, 0]"

text \<open>
  \<^verbatim>\<open>net.IP.Equal\<close>: slices of one length are compared bytewise; a 4-byte address equals
  the 16-byte address that carries it behind the IPv4-in-IPv6 prefix.
\<close>

definition IP_Equal :: "byte list \<Rightarrow> byte list \<Rightarrow> bool" where
  "IP_Equal ip x =
     (if length ip = length x then ip = x
      else if length ip = 4 \<and> length x = 16 then take 12 x = v4InV6Prefix \<and> ip = drop 12 x
      else if length ip = 16 \<and> length x = 4 then take 12 ip = v4InV6Prefix \<and> drop 12 ip = x
      else False)"

text \<open>\<^verbatim>\<open>fmt.Sprintf\<close> prints a boolean under \<^verbatim>\<open>%v\<close> as \<^verbatim>\<open>true\<close> or \<^verbatim>\<open>false\<close>.\<close>

definition fmt_bool :: "bool \<Rightarrow> string" where
  "fmt_bool b = (if b then ''true'' else ''false'')"

section \<open>The evaluator of \<^verbatim>\<open>gx509/technicalconstraints.go\<close>\<close>

text \<open>
  A Go run-time panic is a value of the model: indexing a slice out of its range, and
  dereferencing a nil pointer.
\<close>

datatype panic = IndexOutOfRange | NilDereference

text \<open>
  \<^verbatim>\<open>isAllZeros(buf, length)\<close>: the guard on \<^verbatim>\<open>length > len(buf)\<close>, then the loop
  \<^verbatim>\<open>for i := 0; i < length; i++\<close> that reads \<^verbatim>\<open>buf[i]\<close>. The read is modelled with Go's
  bounds check.
\<close>

function isAllZeros_loop :: "byte list \<Rightarrow> int \<Rightarrow> int \<Rightarrow> panic + bool" where
  "isAllZeros_loop buf len i =
     (if i < len then
        (if i < 0 \<or> int (length buf) \<le> i then Inl IndexOutOfRange
         else if buf ! nat i \<noteq> 0 then Inr False
         else isAllZeros_loop buf len (i + 1))
      else Inr True)"
  by pat_completeness auto
termination
  by (relation "measure (\<lambda>(buf, len, i). nat (len - i))") auto

declare isAllZeros_loop.simps [simp del]

definition isAllZeros :: "byte list \<Rightarrow> int \<Rightarrow> panic + bool" where
  "isAllZeros buf len =
     (if int (length buf) < len then Inr False else isAllZeros_loop buf len 0)"

text \<open>
  The policy constant \<^verbatim>\<open>nsSGCCutoff\<close>: 23 August 2016, 00:00:00 UTC.
\<close>

definition nsSGCCutoff :: Time where
  "nsSGCCutoff = Date 2016 August 23 0 0 0 0"

text \<open>
  The loop over \<^verbatim>\<open>cert.ExtKeyUsage\<close>. It returns from the function at the first
  \<^verbatim>\<open>ExtKeyUsageAny\<close> (the left injection carries the returned pair) and otherwise ends with
  the two flags \<^verbatim>\<open>hasServerAuth\<close> and \<^verbatim>\<open>hasStepUp\<close>.
\<close>

fun usage_loop ::
  "ExtKeyUsage list \<Rightarrow> bool \<Rightarrow> bool \<Rightarrow> (bool \<times> string) + (bool \<times> bool)" where
  "usage_loop [] hasServerAuth hasStepUp = Inr (hasServerAuth, hasStepUp)"
| "usage_loop (usage # rest) hasServerAuth hasStepUp =
     (if usage = ExtKeyUsageAny then Inl (False, ''ExtKeyUsageAny not permitted'')
      else if usage = ExtKeyUsageServerAuth then usage_loop rest True hasStepUp
      else if usage = ExtKeyUsageNetscapeServerGatedCrypto then usage_loop rest hasServerAuth True
      else usage_loop rest hasServerAuth hasStepUp)"

text \<open>
  Go's \<^verbatim>\<open>a && f()\<close> evaluates \<^verbatim>\<open>f()\<close> only when \<^verbatim>\<open>a\<close> holds.
\<close>

definition and_then :: "bool \<Rightarrow> panic + bool \<Rightarrow> panic + bool" where
  "and_then a m = (if a then m else Inr False)"

text \<open>
  The loop over \<^verbatim>\<open>cert.ExcludedIPAddresses\<close>, which sets \<^verbatim>\<open>excludesIPv4\<close> and
  \<^verbatim>\<open>excludesIPv6\<close>.
\<close>

fun excluded_loop :: "IPNet list \<Rightarrow> bool \<Rightarrow> bool \<Rightarrow> panic + (bool \<times> bool)" where
  "excluded_loop [] excludesIPv4 excludesIPv6 = Inr (excludesIPv4, excludesIPv6)"
| "excluded_loop (cidr # rest) excludesIPv4 excludesIPv6 =
     (case and_then (IP_Equal (IP cidr) IPv4zero) (isAllZeros (Mask cidr) IPv4len) of
        Inl p \<Rightarrow> Inl p
      | Inr is4 \<Rightarrow>
          (case and_then (IP_Equal (IP cidr) IPv6zero) (isAllZeros (Mask cidr) IPv6len) of
             Inl p \<Rightarrow> Inl p
           | Inr is6 \<Rightarrow>
               excluded_loop rest (if is4 then True else excludesIPv4)
                 (if is6 then True else excludesIPv6)))"

text \<open>
  The text \<^verbatim>\<open>constraintsText\<close> and the function itself, on the certificate the pointer
  refers to. The result is the pair the Go function returns, or the panic that ends it.
\<close>

definition constraintsText :: "bool \<Rightarrow> bool \<Rightarrow> bool \<Rightarrow> string" where
  "constraintsText hasDNSName hasIPAddressInPermittedSubtrees hasIPAddressesInExcludedSubtrees =
     ''hasDNSName='' @ fmt_bool hasDNSName
       @ '' && (hasIPAddressInPermittedSubtrees='' @ fmt_bool hasIPAddressInPermittedSubtrees
       @ '' || hasIPAddressesInExcludedSubtrees='' @ fmt_bool hasIPAddressesInExcludedSubtrees
       @ '')''"

definition DetermineIfTechnicallyConstrained ::
  "'a Certificate_scheme \<Rightarrow> panic + (bool \<times> string)" where
  "DetermineIfTechnicallyConstrained cert =
     (if length (ExtKeyUsage cert) = 0 then Inr (False, ''ExtKeyUsage is required'')
      else
        let stepUpEquivalentToServerAuth = Before (NotBefore cert) nsSGCCutoff in
        case usage_loop (ExtKeyUsage cert) False False of
          Inl ret \<Rightarrow> Inr ret
        | Inr (hasServerAuth, hasStepUp) \<Rightarrow>
            if \<not> (hasServerAuth \<or> (stepUpEquivalentToServerAuth \<and> hasStepUp)) then
              Inr (True,
                ''Is constrained: hasServerAuth='' @ fmt_bool hasServerAuth
                  @ '' || (beforeStepUpCutoff='' @ fmt_bool stepUpEquivalentToServerAuth
                  @ '' && hasStepUp='' @ fmt_bool hasStepUp @ '')'')
            else
              (case excluded_loop (ExcludedIPAddresses cert) False False of
                 Inl p \<Rightarrow> Inl p
               | Inr (excludesIPv4, excludesIPv6) \<Rightarrow>
                   let hasIPAddressInPermittedSubtrees = 0 < length (PermittedIPAddresses cert);
                       hasIPAddressesInExcludedSubtrees = (excludesIPv4 \<and> excludesIPv6);
                       hasDNSName = (0 < length (PermittedDNSDomains cert)
                                       \<or> 0 < length (ExcludedDNSDomains cert))
                   in if hasDNSName \<and> (hasIPAddressInPermittedSubtrees
                                          \<or> hasIPAddressesInExcludedSubtrees)
                      then Inr (True, ''Is constrained: ''
                             @ constraintsText hasDNSName hasIPAddressInPermittedSubtrees
                                 hasIPAddressesInExcludedSubtrees)
                      else Inr (False, ''Is not constrained: ''
                             @ constraintsText hasDNSName hasIPAddressInPermittedSubtrees
                                 hasIPAddressesInExcludedSubtrees
                             @ '')'')))"



section \<open>The evaluator of \<^verbatim>\<open>gx509.go\<close>\<close>

text \<open>
  The second copy of the function differs in three places: \<^verbatim>\<open>isAllZeros(buf)\<close> ranges over
  the whole slice and has no length argument, the cutoff is parsed from a string with
  \<^verbatim>\<open>time.Parse(time.RFC3339, ...)\<close>, and the rationale texts of two branches are other
  texts. Its definitions carry the suffix \<open>_unchecked\<close>. The loop over the usages is the
  same text in both files, and the format string of its last rationale is the one of
  \<^verbatim>\<open>constraintsText\<close> behind \<^verbatim>\<open>Is not constrained: \<close>. It has no indexed read, hence no
  panic to model.
\<close>

fun isAllZeros_unchecked :: "byte list \<Rightarrow> bool" where
  "isAllZeros_unchecked [] = True"
| "isAllZeros_unchecked (b # rest) = (if b \<noteq> 0 then False else isAllZeros_unchecked rest)"

text \<open>
  \<^verbatim>\<open>time.Parse\<close> with the layout \<^verbatim>\<open>time.RFC3339\<close>, for the form \<^verbatim>\<open>YYYY-MM-DDThh:mm:ssZ\<close>
  of the one string the source passes: six decimal fields between fixed separators, in
  UTC. Any other text is answered with an error message.
\<close>

definition digit :: "char \<Rightarrow> int option" where
  "digit c = (let n = (of_char c :: int) in if 48 \<le> n \<and> n \<le> 57 then Some (n - 48) else None)"

fun atoi :: "string \<Rightarrow> int \<Rightarrow> int option" where
  "atoi [] acc = Some acc"
| "atoi (c # cs) acc = (case digit c of None \<Rightarrow> None | Some d \<Rightarrow> atoi cs (10 * acc + d))"

definition field :: "string \<Rightarrow> nat \<Rightarrow> nat \<Rightarrow> int option" where
  "field v start n = atoi (take n (drop start v)) 0"

definition Parse_RFC3339 :: "string \<Rightarrow> string + Time" where
  "Parse_RFC3339 v =
     (if length v = 20 \<and> v ! 4 = CHR ''-'' \<and> v ! 7 = CHR ''-'' \<and> v ! 10 = CHR ''T''
           \<and> v ! 13 = CHR '':'' \<and> v ! 16 = CHR '':'' \<and> v ! 19 = CHR ''Z''
      then
        (case Option.bind (field v 0 4) (\<lambda>year.
              Option.bind (field v 5 2) (\<lambda>month.
              Option.bind (field v 8 2) (\<lambda>day.
              Option.bind (field v 11 2) (\<lambda>hour.
              Option.bind (field v 14 2) (\<lambda>minute.
              Option.bind (field v 17 2) (\<lambda>second.
                Some (Date year month day hour minute second 0))))))) of
           None \<Rightarrow> Inl (''parsing time '' @ v)
         | Some t \<Rightarrow> Inr t)
      else Inl (''parsing time '' @ v))"

fun excluded_loop_unchecked :: "IPNet list \<Rightarrow> bool \<Rightarrow> bool \<Rightarrow> bool \<times> bool" where
  "excluded_loop_unchecked [] excludesIPv4 excludesIPv6 = (excludesIPv4, excludesIPv6)"
| "excluded_loop_unchecked (cidr # rest) excludesIPv4 excludesIPv6 =
     excluded_loop_unchecked rest
       (if IP_Equal (IP cidr) IPv4zero \<and> isAllZeros_unchecked (Mask cidr)
        then True else excludesIPv4)
       (if IP_Equal (IP cidr) IPv6zero \<and> isAllZeros_unchecked (Mask cidr)
        then True else excludesIPv6)"

definition DetermineIfTechnicallyConstrained_unchecked ::
  "'a Certificate_scheme \<Rightarrow> bool \<times> string" where
  "DetermineIfTechnicallyConstrained_unchecked cert =
     (if length (ExtKeyUsage cert) = 0 then (False, ''ExtKeyUsage is required'')
      else
        case Parse_RFC3339 ''2016-08-23T00:00:00Z'' of
          Inl err \<Rightarrow> (False, err)
        | Inr cutoff \<Rightarrow>
            let stepUpEquivalentToServerAuth = Before (NotBefore cert) cutoff in
            case usage_loop (ExtKeyUsage cert) False False of
              Inl ret \<Rightarrow> ret
            | Inr (hasServerAuth, hasStepUp) \<Rightarrow>
                if \<not> (hasServerAuth \<or> (stepUpEquivalentToServerAuth \<and> hasStepUp)) then
                  (True, ''Is not constrained: not for Server Auth'')
                else
                  (case excluded_loop_unchecked (ExcludedIPAddresses cert) False False of
                     (excludesIPv4, excludesIPv6) \<Rightarrow>
                       let hasIPAddressInPermittedSubtrees =
                             0 < length (PermittedIPAddresses cert);
                           hasIPAddressesInExcludedSubtrees = (excludesIPv4 \<and> excludesIPv6);
                           hasDNSName = (0 < length (PermittedDNSDomains cert)
                                           \<or> 0 < length (ExcludedDNSDomains cert))
                       in if hasDNSName \<and> (hasIPAddressInPermittedSubtrees
                                              \<or> hasIPAddressesInExcludedSubtrees)
                          then (True, ''Is constrained'')
                          else (False, ''Is not constrained: ''
                                 @ constraintsText hasDNSName hasIPAddressInPermittedSubtrees
                                     hasIPAddressesInExcludedSubtrees)))"

section \<open>Vocabulary of the statements\<close>

text \<open>
  Two predicates used to state the properties (they are not part of the program): an
  entry of the excluded subtrees covers the whole IPv4 range when its address equals the
  IPv4 zero address and its mask has at least four bytes of which the first four are
  zero; it covers the whole IPv6 range when its address equals the IPv6 zero address and
  its mask has at least sixteen bytes of which the first sixteen are zero.
\<close>

definition fullRangeIPv4 :: "IPNet \<Rightarrow> bool" where
  "fullRangeIPv4 cidr =
     (IP_Equal (IP cidr) IPv4zero \<and> 4 \<le> length (Mask cidr)
        \<and> list_all (\<lambda>b. b = 0) (take 4 (Mask cidr)))"

definition fullRangeIPv6 :: "IPNet \<Rightarrow> bool" where
  "fullRangeIPv6 cidr =
     (IP_Equal (IP cidr) IPv6zero \<and> 16 \<le> length (Mask cidr)
        \<and> list_all (\<lambda>b. b = 0) (take 16 (Mask cidr)))"

text \<open>
  Certificates for the concrete checks, with the field values of the scenarios of the test
  file: a 2017 certificate for client and server authentication with DNS constraints that
  excludes \<^verbatim>\<open>0.0.0.0/0\<close> and \<^verbatim>\<open>::/0\<close>, and the two full-range entries themselves.
\<close>

definition December :: int where
  "December = 12"

definition zeroIPv4Net :: IPNet where
  "zeroIPv4Net = \<lparr>IP = [0, 0, 0, 0], Mask = [0, 0, 0, 0]\<rparr>"

definition zeroIPv6Net :: IPNet where
  "zeroIPv6Net = \<lparr>IP = IPv6zero, Mask = IPv6zero\<rparr>"

definition cert2017 :: Certificate where
  "cert2017 =
     \<lparr>ExtKeyUsage = [ExtKeyUsageClientAuth, ExtKeyUsageServerAuth],
      NotBefore = Date 2017 December 1 23 59 59 59,
      NotAfter = Date 2019 December 1 23 59 59 59,
      BasicConstraintsValid = True,
      IsCA = True,
      PermittedDNSDomains = [''.example.com'', ''example.com''],
      ExcludedDNSDomains = [],
      PermittedIPAddresses = [],
      ExcludedIPAddresses = [zeroIPv4Net, zeroIPv6Net]\<rparr>"

section \<open>Facts about the loops\<close>

lemma isAllZeros_loop_eq:
  "0 \<le> i \<Longrightarrow> len \<le> int (length buf) \<Longrightarrow>
   isAllZeros_loop buf len i = Inr (list_all (\<lambda>b. b = 0) (drop (nat i) (take (nat len) buf)))"
proof (induction buf len i rule: isAllZeros_loop.induct)
  case (1 buf len i)
  show ?case
  proof (cases "i < len")
    case False
    then show ?thesis by (simp add: isAllZeros_loop.simps [of buf len i])
  next
    case True
    with "1.prems" have inb: "nat i < length (take (nat len) buf)" by simp
    have split: "drop (nat i) (take (nat len) buf)
        = (buf ! nat i) # drop (nat (i + 1)) (take (nat len) buf)"
      using inb "1.prems" by (simp add: Cons_nth_drop_Suc [symmetric] nat_add_distrib)
    show ?thesis
    proof (cases "buf ! nat i = 0")
      case z: True
      have "isAllZeros_loop buf len i = isAllZeros_loop buf len (i + 1)"
        using True "1.prems" z by (simp add: isAllZeros_loop.simps [of buf len i])
      also have "\<dots> = Inr (list_all (\<lambda>b. b = 0) (drop (nat (i + 1)) (take (nat len) buf)))"
        using "1.IH" True "1.prems" z by simp
      finally show ?thesis using z by (simp add: split)
    next
      case nz: False
      then show ?thesis
        using True "1.prems" by (simp add: isAllZeros_loop.simps [of buf len i] split)
    qed
  qed
qed

lemma isAllZeros_eq:
  "isAllZeros buf len
     = Inr (len \<le> int (length buf) \<and> list_all (\<lambda>b. b = 0) (take (nat len) buf))"
  by (simp add: isAllZeros_def isAllZeros_loop_eq)

lemma usage_consts_distinct:
  "ExtKeyUsageAny \<noteq> ExtKeyUsageServerAuth"
  "ExtKeyUsageAny \<noteq> ExtKeyUsageNetscapeServerGatedCrypto"
  "ExtKeyUsageServerAuth \<noteq> ExtKeyUsageNetscapeServerGatedCrypto"
  "ExtKeyUsageServerAuth \<noteq> ExtKeyUsageAny"
  "ExtKeyUsageNetscapeServerGatedCrypto \<noteq> ExtKeyUsageAny"
  "ExtKeyUsageNetscapeServerGatedCrypto \<noteq> ExtKeyUsageServerAuth"
  by (simp_all add: ExtKeyUsageAny_def ExtKeyUsageServerAuth_def
        ExtKeyUsageNetscapeServerGatedCrypto_def)

lemma usage_loop_eq:
  "usage_loop us sa su =
     (if ExtKeyUsageAny \<in> set us then Inl (False, ''ExtKeyUsageAny not permitted'')
      else Inr (sa \<or> ExtKeyUsageServerAuth \<in> set us,
                su \<or> ExtKeyUsageNetscapeServerGatedCrypto \<in> set us))"
proof (induction us arbitrary: sa su)
  case Nil
  show ?case by simp
next
  case (Cons u us)
  show ?case
    by (simp add: Cons.IH usage_consts_distinct)
qed

lemma and_then_isAllZeros4:
  "and_then (IP_Equal (IP c) IPv4zero) (isAllZeros (Mask c) IPv4len) = Inr (fullRangeIPv4 c)"
  by (simp add: and_then_def isAllZeros_eq fullRangeIPv4_def IPv4len_def)

lemma and_then_isAllZeros6:
  "and_then (IP_Equal (IP c) IPv6zero) (isAllZeros (Mask c) IPv6len) = Inr (fullRangeIPv6 c)"
  by (simp add: and_then_def isAllZeros_eq fullRangeIPv6_def IPv6len_def)

lemma excluded_loop_eq:
  "excluded_loop cs e4 e6 = Inr (e4 \<or> list_ex fullRangeIPv4 cs, e6 \<or> list_ex fullRangeIPv6 cs)"
proof (induction cs arbitrary: e4 e6)
  case Nil
  show ?case by simp
next
  case (Cons c cs)
  show ?case
    by (simp add: and_then_isAllZeros4 and_then_isAllZeros6 Cons.IH)
qed

lemma DITC_eq:
  "DetermineIfTechnicallyConstrained cert =
     Inr (if ExtKeyUsage cert = [] then (False, ''ExtKeyUsage is required'')
          else if ExtKeyUsageAny \<in> set (ExtKeyUsage cert)
            then (False, ''ExtKeyUsageAny not permitted'')
          else if \<not> (ExtKeyUsageServerAuth \<in> set (ExtKeyUsage cert)
                      \<or> (Before (NotBefore cert) nsSGCCutoff
                           \<and> ExtKeyUsageNetscapeServerGatedCrypto \<in> set (ExtKeyUsage cert)))
            then (True,
                  ''Is constrained: hasServerAuth=''
                    @ fmt_bool (ExtKeyUsageServerAuth \<in> set (ExtKeyUsage cert))
                    @ '' || (beforeStepUpCutoff='' @ fmt_bool (Before (NotBefore cert) nsSGCCutoff)
                    @ '' && hasStepUp=''
                    @ fmt_bool (ExtKeyUsageNetscapeServerGatedCrypto \<in> set (ExtKeyUsage cert))
                    @ '')'')
          else if (PermittedDNSDomains cert \<noteq> [] \<or> ExcludedDNSDomains cert \<noteq> [])
                    \<and> (PermittedIPAddresses cert \<noteq> []
                          \<or> (list_ex fullRangeIPv4 (ExcludedIPAddresses cert)
                               \<and> list_ex fullRangeIPv6 (ExcludedIPAddresses cert)))
            then (True, ''Is constrained: ''
                    @ constraintsText
                        (PermittedDNSDomains cert \<noteq> [] \<or> ExcludedDNSDomains cert \<noteq> [])
                        (PermittedIPAddresses cert \<noteq> [])
                        (list_ex fullRangeIPv4 (ExcludedIPAddresses cert)
                           \<and> list_ex fullRangeIPv6 (ExcludedIPAddresses cert)))
          else (False, ''Is not constrained: ''
                    @ constraintsText
                        (PermittedDNSDomains cert \<noteq> [] \<or> ExcludedDNSDomains cert \<noteq> [])
                        (PermittedIPAddresses cert \<noteq> [])
                        (list_ex fullRangeIPv4 (ExcludedIPAddresses cert)
                           \<and> list_ex fullRangeIPv6 (ExcludedIPAddresses cert))
                    @ '')''))"
  by (simp add: DetermineIfTechnicallyConstrained_def usage_loop_eq excluded_loop_eq Let_def)

lemma DITC_cong:
  fixes c1 :: "'a Certificate_scheme" and c2 :: "'b Certificate_scheme"
  assumes "(ExtKeyUsage c1 = []) = (ExtKeyUsage c2 = [])"
    and "set (ExtKeyUsage c1) = set (ExtKeyUsage c2)"
    and "NotBefore c1 = NotBefore c2"
    and "(PermittedDNSDomains c1 = []) = (PermittedDNSDomains c2 = [])"
    and "(ExcludedDNSDomains c1 = []) = (ExcludedDNSDomains c2 = [])"
    and "(PermittedIPAddresses c1 = []) = (PermittedIPAddresses c2 = [])"
    and "set (ExcludedIPAddresses c1) = set (ExcludedIPAddresses c2)"
  shows "DetermineIfTechnicallyConstrained c1 = DetermineIfTechnicallyConstrained c2"
  unfolding DITC_eq list_ex_iff by (simp only: assms)

section \<open>Facts about the function of \<^verbatim>\<open>gx509.go\<close>\<close>

lemma isAllZeros_unchecked_eq: "isAllZeros_unchecked buf = list_all (\<lambda>b. b = 0) buf"
  by (induction buf) simp_all

lemma excluded_loop_unchecked_eq:
  "excluded_loop_unchecked cs e4 e6 =
     (e4 \<or> list_ex (\<lambda>c. IP_Equal (IP c) IPv4zero \<and> isAllZeros_unchecked (Mask c)) cs,
      e6 \<or> list_ex (\<lambda>c. IP_Equal (IP c) IPv6zero \<and> isAllZeros_unchecked (Mask c)) cs)"
  by (induction cs arbitrary: e4 e6) (simp_all del: list_ex_iff)

lemma Parse_cutoff: "Parse_RFC3339 ''2016-08-23T00:00:00Z'' = Inr nsSGCCutoff"
  by (simp add: Parse_RFC3339_def field_def digit_def nsSGCCutoff_def August_def)

lemma DITC_unchecked_fst:
  "fst (DetermineIfTechnicallyConstrained_unchecked cert) =
     (if ExtKeyUsage cert = [] then False
      else if ExtKeyUsageAny \<in> set (ExtKeyUsage cert) then False
      else if \<not> (ExtKeyUsageServerAuth \<in> set (ExtKeyUsage cert)
                  \<or> (Before (NotBefore cert) nsSGCCutoff
                       \<and> ExtKeyUsageNetscapeServerGatedCrypto \<in> set (ExtKeyUsage cert)))
        then True
      else (PermittedDNSDomains cert \<noteq> [] \<or> ExcludedDNSDomains cert \<noteq> [])
             \<and> (PermittedIPAddresses cert \<noteq> []
                   \<or> (list_ex (\<lambda>c. IP_Equal (IP c) IPv4zero \<and> isAllZeros_unchecked (Mask c))
                         (ExcludedIPAddresses cert)
                        \<and> list_ex (\<lambda>c. IP_Equal (IP c) IPv6zero \<and> isAllZeros_unchecked (Mask c))
                            (ExcludedIPAddresses cert))))"
  by (simp add: DetermineIfTechnicallyConstrained_unchecked_def Parse_cutoff usage_loop_eq
        excluded_loop_unchecked_eq Let_def del: list_ex_iff)

lemma DITC_fst:
  "\<exists>rationale. DetermineIfTechnicallyConstrained cert =
     Inr (if ExtKeyUsage cert = [] then False
      else if ExtKeyUsageAny \<in> set (ExtKeyUsage cert) then False
      else if \<not> (ExtKeyUsageServerAuth \<in> set (ExtKeyUsage cert)
                  \<or> (Before (NotBefore cert) nsSGCCutoff
                       \<and> ExtKeyUsageNetscapeServerGatedCrypto \<in> set (ExtKeyUsage cert)))
        then True
      else (PermittedDNSDomains cert \<noteq> [] \<or> ExcludedDNSDomains cert \<noteq> [])
             \<and> (PermittedIPAddresses cert \<noteq> []
                   \<or> (list_ex fullRangeIPv4 (ExcludedIPAddresses cert)
                        \<and> list_ex fullRangeIPv6 (ExcludedIPAddresses cert))), rationale)"
  unfolding DITC_eq by (simp del: list_ex_iff)

lemma family_length_masks_agree:
  assumes "list_all (\<lambda>cidr. (IP_Equal (IP cidr) IPv4zero \<longrightarrow> length (Mask cidr) = 4)
                       \<and> (IP_Equal (IP cidr) IPv6zero \<longrightarrow> length (Mask cidr) = 16)) cs"
  shows "list_ex (\<lambda>c. IP_Equal (IP c) IPv4zero \<and> isAllZeros_unchecked (Mask c)) cs
           = list_ex fullRangeIPv4 cs"
    and "list_ex (\<lambda>c. IP_Equal (IP c) IPv6zero \<and> isAllZeros_unchecked (Mask c)) cs
           = list_ex fullRangeIPv6 cs"
  using assms
  by (induction cs)
     (auto simp add: fullRangeIPv4_def fullRangeIPv6_def isAllZeros_unchecked_eq)

section \<open>Facts about the concrete certificates\<close>

lemma cert2017_fields:
  "ExtKeyUsage cert2017 = [ExtKeyUsageClientAuth, ExtKeyUsageServerAuth]"
  "PermittedDNSDomains cert2017 = [''.example.com'', ''example.com'']"
  "ExcludedDNSDomains cert2017 = []"
  "PermittedIPAddresses cert2017 = []"
  "ExcludedIPAddresses cert2017 = [zeroIPv4Net, zeroIPv6Net]"
  "NotBefore cert2017 = Date 2017 December 1 23 59 59 59"
  by (simp_all add: cert2017_def)

lemma usage_values:
  "ExtKeyUsageClientAuth \<noteq> ExtKeyUsageAny"
  "ExtKeyUsageClientAuth \<noteq> ExtKeyUsageServerAuth"
  "ExtKeyUsageClientAuth \<noteq> ExtKeyUsageNetscapeServerGatedCrypto"
  by (simp_all add: ExtKeyUsageAny_def ExtKeyUsageServerAuth_def ExtKeyUsageClientAuth_def
        ExtKeyUsageNetscapeServerGatedCrypto_def)

lemma fullRange_zero_nets:
  "fullRangeIPv4 zeroIPv4Net" "\<not> fullRangeIPv6 zeroIPv4Net"
  "fullRangeIPv6 zeroIPv6Net" "\<not> fullRangeIPv4 zeroIPv6Net"
  by (simp_all add: fullRangeIPv4_def fullRangeIPv6_def zeroIPv4Net_def zeroIPv6Net_def
        IP_Equal_def IPv4zero_def IPv6zero_def v4InV6Prefix_def)

lemma Before_2017: "\<not> Before (Date 2017 December 1 23 59 59 59) nsSGCCutoff"
  by (simp add: Before_def nsSGCCutoff_def Date_def daysSinceEpoch_def August_def December_def)

lemma Before_2014: "Before (Date 2014 December 1 23 59 59 59) nsSGCCutoff"
  by (simp add: Before_def nsSGCCutoff_def Date_def daysSinceEpoch_def August_def December_def)

section \<open>The properties\<close>

text \<open>
  C1. For every certificate whose usage list is not empty, has no \<^verbatim>\<open>ExtKeyUsageAny\<close> and
  has \<^verbatim>\<open>ExtKeyUsageServerAuth\<close>, or \<^verbatim>\<open>ExtKeyUsageNetscapeServerGatedCrypto\<close> together with a
  \<^verbatim>\<open>NotBefore\<close> strictly before 23 August 2016 00:00:00 UTC, the function returns without
  a panic, and the boolean it returns is true exactly when a DNS constraint is present
  (permitted or excluded) and either a permitted IP subtree is present or some excluded
  entry covers the whole IPv4 range and some excluded entry covers the whole IPv6 range.
\<close>

theorem eligible_constrained_iff:
  assumes "ExtKeyUsage cert \<noteq> []"
    and "ExtKeyUsageAny \<notin> set (ExtKeyUsage cert)"
    and "ExtKeyUsageServerAuth \<in> set (ExtKeyUsage cert)
         \<or> (ExtKeyUsageNetscapeServerGatedCrypto \<in> set (ExtKeyUsage cert)
              \<and> Before (NotBefore cert) nsSGCCutoff)"
  shows "\<exists>rationale. DetermineIfTechnicallyConstrained cert =
           Inr ((PermittedDNSDomains cert \<noteq> [] \<or> ExcludedDNSDomains cert \<noteq> [])
                  \<and> (PermittedIPAddresses cert \<noteq> []
                        \<or> (list_ex fullRangeIPv4 (ExcludedIPAddresses cert)
                             \<and> list_ex fullRangeIPv6 (ExcludedIPAddresses cert))),
                rationale)"
proof -
  have elig: "ExtKeyUsageServerAuth \<in> set (ExtKeyUsage cert)
         \<or> (Before (NotBefore cert) nsSGCCutoff
              \<and> ExtKeyUsageNetscapeServerGatedCrypto \<in> set (ExtKeyUsage cert))"
    using assms(3) by blast
  show ?thesis
    unfolding DITC_eq using assms(1,2) elig by (simp del: list_ex_iff)
qed

theorem eligible_constrained_iff_witness:
  "ExtKeyUsage cert2017 \<noteq> []
   \<and> ExtKeyUsageAny \<notin> set (ExtKeyUsage cert2017)
   \<and> (ExtKeyUsageServerAuth \<in> set (ExtKeyUsage cert2017)
        \<or> (ExtKeyUsageNetscapeServerGatedCrypto \<in> set (ExtKeyUsage cert2017)
             \<and> Before (NotBefore cert2017) nsSGCCutoff))
   \<and> (\<exists>rationale. DetermineIfTechnicallyConstrained cert2017 = Inr (True, rationale))"
proof -
  have h1: "ExtKeyUsage cert2017 \<noteq> []"
    by (simp add: cert2017_fields)
  have h2: "ExtKeyUsageAny \<notin> set (ExtKeyUsage cert2017)"
    using usage_values usage_consts_distinct by (simp add: cert2017_fields)
  have h3: "ExtKeyUsageServerAuth \<in> set (ExtKeyUsage cert2017)
        \<or> (ExtKeyUsageNetscapeServerGatedCrypto \<in> set (ExtKeyUsage cert2017)
             \<and> Before (NotBefore cert2017) nsSGCCutoff)"
    by (simp add: cert2017_fields)
  from eligible_constrained_iff [OF h1 h2 h3]
  have "\<exists>rationale. DetermineIfTechnicallyConstrained cert2017 = Inr (True, rationale)"
    by (simp add: cert2017_fields fullRange_zero_nets)
  with h1 h2 h3 show ?thesis by blast
qed

text \<open>
  C2. For every certificate whose usage list is not empty and has neither
  \<^verbatim>\<open>ExtKeyUsageAny\<close> nor \<^verbatim>\<open>ExtKeyUsageServerAuth\<close>, and that either lacks
  \<^verbatim>\<open>ExtKeyUsageNetscapeServerGatedCrypto\<close> or has a \<^verbatim>\<open>NotBefore\<close> on or after the cutoff,
  the function returns true, and the rationale prints the three booleans
  \<^verbatim>\<open>hasServerAuth\<close>, \<^verbatim>\<open>beforeStepUpCutoff\<close> and \<^verbatim>\<open>hasStepUp\<close> with their values.
\<close>

theorem not_eligible_is_constrained:
  assumes "ExtKeyUsage cert \<noteq> []"
    and "ExtKeyUsageAny \<notin> set (ExtKeyUsage cert)"
    and "ExtKeyUsageServerAuth \<notin> set (ExtKeyUsage cert)"
    and "ExtKeyUsageNetscapeServerGatedCrypto \<notin> set (ExtKeyUsage cert)
         \<or> \<not> Before (NotBefore cert) nsSGCCutoff"
  shows "DetermineIfTechnicallyConstrained cert =
           Inr (True,
             ''Is constrained: hasServerAuth=false || (beforeStepUpCutoff=''
               @ fmt_bool (Before (NotBefore cert) nsSGCCutoff)
               @ '' && hasStepUp=''
               @ fmt_bool (ExtKeyUsageNetscapeServerGatedCrypto \<in> set (ExtKeyUsage cert))
               @ '')'')"
proof -
  have "\<not> (ExtKeyUsageServerAuth \<in> set (ExtKeyUsage cert)
         \<or> (Before (NotBefore cert) nsSGCCutoff
              \<and> ExtKeyUsageNetscapeServerGatedCrypto \<in> set (ExtKeyUsage cert)))"
    using assms(3,4) by blast
  then show ?thesis
    unfolding DITC_eq using assms(1,2,3) by (simp add: fmt_bool_def)
qed

theorem not_eligible_is_constrained_witness:
  "ExtKeyUsage (cert2017\<lparr>ExtKeyUsage := [ExtKeyUsageNetscapeServerGatedCrypto]\<rparr>) \<noteq> []
   \<and> ExtKeyUsageAny
        \<notin> set (ExtKeyUsage (cert2017\<lparr>ExtKeyUsage := [ExtKeyUsageNetscapeServerGatedCrypto]\<rparr>))
   \<and> ExtKeyUsageServerAuth
        \<notin> set (ExtKeyUsage (cert2017\<lparr>ExtKeyUsage := [ExtKeyUsageNetscapeServerGatedCrypto]\<rparr>))
   \<and> \<not> Before (NotBefore (cert2017\<lparr>ExtKeyUsage := [ExtKeyUsageNetscapeServerGatedCrypto]\<rparr>))
          nsSGCCutoff
   \<and> DetermineIfTechnicallyConstrained
        (cert2017\<lparr>ExtKeyUsage := [ExtKeyUsageNetscapeServerGatedCrypto]\<rparr>) =
       Inr (True,
         ''Is constrained: hasServerAuth=false || (beforeStepUpCutoff=false && hasStepUp=true)'')"
proof -
  let ?c = "cert2017\<lparr>ExtKeyUsage := [ExtKeyUsageNetscapeServerGatedCrypto]\<rparr>"
  have h1: "ExtKeyUsage ?c \<noteq> []" by simp
  have h2: "ExtKeyUsageAny \<notin> set (ExtKeyUsage ?c)"
    using usage_consts_distinct by simp
  have h3: "ExtKeyUsageServerAuth \<notin> set (ExtKeyUsage ?c)"
    using usage_consts_distinct by simp
  have nb: "\<not> Before (NotBefore ?c) nsSGCCutoff"
    by (simp add: cert2017_fields Before_2017)
  then have h4: "ExtKeyUsageNetscapeServerGatedCrypto \<notin> set (ExtKeyUsage ?c)
         \<or> \<not> Before (NotBefore ?c) nsSGCCutoff" by blast
  from not_eligible_is_constrained [OF h1 h2 h3 h4] nb
  have "DetermineIfTechnicallyConstrained ?c =
       Inr (True,
         ''Is constrained: hasServerAuth=false || (beforeStepUpCutoff=false && hasStepUp=true)'')"
    by (simp add: fmt_bool_def)
  with h1 h2 h3 nb show ?thesis by blast
qed

text \<open>
  C3. For every certificate whose \<^verbatim>\<open>NotBefore\<close> is strictly before the cutoff, whatever its
  DNS and IP constraint fields, the function returns the same pair of boolean and
  rationale for the usage list \<^verbatim>\<open>{ExtKeyUsageNetscapeServerGatedCrypto}\<close> as for the usage
  list \<^verbatim>\<open>{ExtKeyUsageServerAuth}\<close>.
\<close>

theorem stepUp_before_cutoff_as_serverAuth:
  assumes "Before (NotBefore cert) nsSGCCutoff"
  shows "DetermineIfTechnicallyConstrained
           (cert\<lparr>ExtKeyUsage := [ExtKeyUsageNetscapeServerGatedCrypto]\<rparr>)
         = DetermineIfTechnicallyConstrained (cert\<lparr>ExtKeyUsage := [ExtKeyUsageServerAuth]\<rparr>)"
  unfolding DITC_eq using assms usage_consts_distinct by (simp del: list_ex_iff)

theorem stepUp_before_cutoff_as_serverAuth_witness:
  "Before (NotBefore (cert2017\<lparr>NotBefore := Date 2014 December 1 23 59 59 59\<rparr>)) nsSGCCutoff
   \<and> DetermineIfTechnicallyConstrained
        (cert2017\<lparr>NotBefore := Date 2014 December 1 23 59 59 59,
                  ExtKeyUsage := [ExtKeyUsageNetscapeServerGatedCrypto]\<rparr>)
     = DetermineIfTechnicallyConstrained
        (cert2017\<lparr>NotBefore := Date 2014 December 1 23 59 59 59,
                  ExtKeyUsage := [ExtKeyUsageServerAuth]\<rparr>)"
proof -
  have h: "Before (NotBefore (cert2017\<lparr>NotBefore := Date 2014 December 1 23 59 59 59\<rparr>))
             nsSGCCutoff"
    by (simp add: Before_2014)
  show ?thesis
    using h stepUp_before_cutoff_as_serverAuth [OF h] by simp
qed

text \<open>
  C4, as stated, asks for the rationale \<^verbatim>\<open>anyExtendedKeyUsage not permitted\<close>. On the usage
  list \<^verbatim>\<open>{ExtKeyUsageAny, ExtKeyUsageNetscapeServerGatedCrypto}\<close> of the test
  \<^verbatim>\<open>TestExtAnyKeyUsage\<close> the function does not return that pair.
\<close>

theorem any_usage_rationale_counterexample:
  "ExtKeyUsageAny
     \<in> set (ExtKeyUsage
              (cert2017\<lparr>ExtKeyUsage := [ExtKeyUsageAny, ExtKeyUsageNetscapeServerGatedCrypto]\<rparr>))
   \<and> DetermineIfTechnicallyConstrained
        (cert2017\<lparr>ExtKeyUsage := [ExtKeyUsageAny, ExtKeyUsageNetscapeServerGatedCrypto]\<rparr>)
       \<noteq> Inr (False, ''anyExtendedKeyUsage not permitted'')"
  by (simp add: DetermineIfTechnicallyConstrained_def)

text \<open>
  C4, amended. For every certificate whose usage list contains \<^verbatim>\<open>ExtKeyUsageAny\<close>, the
  function returns false with the rationale \<^verbatim>\<open>ExtKeyUsageAny not permitted\<close>, whatever the
  other usages, the \<^verbatim>\<open>NotBefore\<close> date and the DNS and IP constraint fields are.
\<close>

theorem any_usage_not_permitted:
  assumes "ExtKeyUsageAny \<in> set (ExtKeyUsage cert)"
  shows "DetermineIfTechnicallyConstrained cert = Inr (False, ''ExtKeyUsageAny not permitted'')"
proof -
  from assms have "ExtKeyUsage cert \<noteq> []" by auto
  with assms show ?thesis unfolding DITC_eq by simp
qed

theorem any_usage_not_permitted_witness:
  "ExtKeyUsageAny
     \<in> set (ExtKeyUsage
              (cert2017\<lparr>ExtKeyUsage := [ExtKeyUsageServerAuth, ExtKeyUsageAny]\<rparr>))
   \<and> DetermineIfTechnicallyConstrained
        (cert2017\<lparr>ExtKeyUsage := [ExtKeyUsageServerAuth, ExtKeyUsageAny]\<rparr>)
       = Inr (False, ''ExtKeyUsageAny not permitted'')"
proof -
  have h: "ExtKeyUsageAny
     \<in> set (ExtKeyUsage (cert2017\<lparr>ExtKeyUsage := [ExtKeyUsageServerAuth, ExtKeyUsageAny]\<rparr>))"
    by simp
  show ?thesis
    using h any_usage_not_permitted [OF h] by simp
qed

text \<open>
  C5. For every certificate whose usage list is empty, the function returns false with
  the rationale \<^verbatim>\<open>ExtKeyUsage is required\<close>, whatever the date and the DNS and IP
  constraint fields are.
\<close>

theorem empty_usage_required:
  assumes "ExtKeyUsage cert = []"
  shows "DetermineIfTechnicallyConstrained cert = Inr (False, ''ExtKeyUsage is required'')"
  using assms by (simp add: DetermineIfTechnicallyConstrained_def)

theorem empty_usage_required_witness:
  "ExtKeyUsage (cert2017\<lparr>ExtKeyUsage := []\<rparr>) = []
   \<and> DetermineIfTechnicallyConstrained (cert2017\<lparr>ExtKeyUsage := []\<rparr>)
       = Inr (False, ''ExtKeyUsage is required'')"
proof -
  have h: "ExtKeyUsage (cert2017\<lparr>ExtKeyUsage := []\<rparr>) = []" by simp
  show ?thesis
    using h empty_usage_required [OF h] by simp
qed

text \<open>
  C6. \<^verbatim>\<open>isAllZeros(buf, length)\<close> returns false, without a panic, whenever \<^verbatim>\<open>length\<close>
  exceeds the number of bytes of \<^verbatim>\<open>buf\<close>. So for an excluded entry whose mask has fewer
  than 4 bytes the IPv4 check is false and the entry leaves both flags as they are, and for
  an excluded entry whose mask has fewer than 16 bytes the IPv6 check is false and the entry
  leaves \<^verbatim>\<open>excludesIPv6\<close> as it is (and sets \<^verbatim>\<open>excludesIPv4\<close> only if it covers the whole
  IPv4 range).
\<close>

theorem short_mask_never_covers:
  "(int (length buf) < len \<longrightarrow> isAllZeros buf len = Inr False)
   \<and> (length (Mask cidr) < 4 \<longrightarrow>
        and_then (IP_Equal (IP cidr) IPv4zero) (isAllZeros (Mask cidr) IPv4len) = Inr False
        \<and> excluded_loop (cidr # rest) excludesIPv4 excludesIPv6
            = excluded_loop rest excludesIPv4 excludesIPv6)
   \<and> (length (Mask cidr) < 16 \<longrightarrow>
        and_then (IP_Equal (IP cidr) IPv6zero) (isAllZeros (Mask cidr) IPv6len) = Inr False
        \<and> excluded_loop (cidr # rest) excludesIPv4 excludesIPv6
            = excluded_loop rest (excludesIPv4 \<or> fullRangeIPv4 cidr) excludesIPv6)"
proof (intro conjI impI)
  assume "int (length buf) < len"
  then show "isAllZeros buf len = Inr False"
    by (simp add: isAllZeros_def)
next
  assume short: "length (Mask cidr) < 4"
  then show c4: "and_then (IP_Equal (IP cidr) IPv4zero) (isAllZeros (Mask cidr) IPv4len)
      = Inr False"
    by (simp add: and_then_def isAllZeros_def IPv4len_def)
  from short have c6: "and_then (IP_Equal (IP cidr) IPv6zero) (isAllZeros (Mask cidr) IPv6len)
      = Inr False"
    by (simp add: and_then_def isAllZeros_def IPv6len_def)
  show "excluded_loop (cidr # rest) excludesIPv4 excludesIPv6
      = excluded_loop rest excludesIPv4 excludesIPv6"
    by (simp add: c4 c6)
next
  assume short: "length (Mask cidr) < 16"
  then show c6: "and_then (IP_Equal (IP cidr) IPv6zero) (isAllZeros (Mask cidr) IPv6len)
      = Inr False"
    by (simp add: and_then_def isAllZeros_def IPv6len_def)
  from short have "\<not> fullRangeIPv6 cidr"
    by (simp add: fullRangeIPv6_def)
  then show "excluded_loop (cidr # rest) excludesIPv4 excludesIPv6
      = excluded_loop rest (excludesIPv4 \<or> fullRangeIPv4 cidr) excludesIPv6"
    by (simp add: excluded_loop_eq)
qed

theorem short_mask_never_covers_witness:
  "int (length [0, 0, 0 :: byte]) < 4
   \<and> isAllZeros [0, 0, 0] 4 = Inr False
   \<and> length (Mask \<lparr>IP = [0, 0, 0, 0], Mask = [0, 0, 0]\<rparr>) < 4
   \<and> length (Mask \<lparr>IP = [0, 0, 0, 0], Mask = [0, 0, 0]\<rparr>) < 16
   \<and> and_then (IP_Equal (IP \<lparr>IP = [0, 0, 0, 0], Mask = [0, 0, 0]\<rparr>) IPv6zero)
        (isAllZeros (Mask \<lparr>IP = [0, 0, 0, 0], Mask = [0, 0, 0]\<rparr>) IPv6len) = Inr False
   \<and> excluded_loop [\<lparr>IP = [0, 0, 0, 0], Mask = [0, 0, 0]\<rparr>, zeroIPv6Net] False False
       = excluded_loop [zeroIPv6Net] False False
   \<and> excluded_loop [zeroIPv6Net] False False = Inr (False, True)"
proof -
  let ?c = "\<lparr>IP = [0, 0, 0, 0], Mask = [0, 0, 0 :: byte]\<rparr>"
  have h1: "int (length [0, 0, 0 :: byte]) < 4" by simp
  have h2: "length (Mask ?c) < 4" by simp
  have h3: "length (Mask ?c) < 16" by simp
  note inst = short_mask_never_covers
    [of "[0, 0, 0]" 4 ?c "[zeroIPv6Net]" False False]
  from inst h1 have r1: "isAllZeros [0, 0, 0] 4 = Inr False" by blast
  from inst h2 have r2: "excluded_loop [?c, zeroIPv6Net] False False
       = excluded_loop [zeroIPv6Net] False False" by blast
  from inst h3 have r3: "and_then (IP_Equal (IP ?c) IPv6zero) (isAllZeros (Mask ?c) IPv6len)
       = Inr False" by blast
  have r4: "excluded_loop [zeroIPv6Net] False False = Inr (False, True)"
    by (simp add: excluded_loop_eq fullRange_zero_nets)
  from h1 h2 h3 r1 r2 r3 r4 show ?thesis by blast
qed

text \<open>
  C7. Whenever the name constraints are evaluated (the usage list is not empty, has no
  \<^verbatim>\<open>ExtKeyUsageAny\<close>, and the certificate is eligible for server authentication), the
  rationale contains the three texts \<^verbatim>\<open>hasDNSName=v\<close>,
  \<^verbatim>\<open>hasIPAddressInPermittedSubtrees=v\<close> and \<^verbatim>\<open>hasIPAddressesInExcludedSubtrees=v\<close> with the
  values \<^verbatim>\<open>v\<close> of the three booleans, when the returned boolean is true and when it is
  false.
\<close>

theorem rationale_names_constraint_booleans:
  fixes cert :: "'a Certificate_scheme"
  defines "hasDNSName \<equiv> PermittedDNSDomains cert \<noteq> [] \<or> ExcludedDNSDomains cert \<noteq> []"
    and "hasIPAddressInPermittedSubtrees \<equiv> PermittedIPAddresses cert \<noteq> []"
    and "hasIPAddressesInExcludedSubtrees \<equiv>
           list_ex fullRangeIPv4 (ExcludedIPAddresses cert)
             \<and> list_ex fullRangeIPv6 (ExcludedIPAddresses cert)"
  assumes "ExtKeyUsage cert \<noteq> []"
    and "ExtKeyUsageAny \<notin> set (ExtKeyUsage cert)"
    and "ExtKeyUsageServerAuth \<in> set (ExtKeyUsage cert)
         \<or> (ExtKeyUsageNetscapeServerGatedCrypto \<in> set (ExtKeyUsage cert)
              \<and> Before (NotBefore cert) nsSGCCutoff)"
  shows "\<exists>b rationale.
           DetermineIfTechnicallyConstrained cert = Inr (b, rationale)
           \<and> b = (hasDNSName
                  \<and> (hasIPAddressInPermittedSubtrees \<or> hasIPAddressesInExcludedSubtrees))
           \<and> rationale =
               (if b then ''Is constrained: '' else ''Is not constrained: '')
                 @ ''hasDNSName='' @ fmt_bool hasDNSName
                 @ '' && (hasIPAddressInPermittedSubtrees=''
                 @ fmt_bool hasIPAddressInPermittedSubtrees
                 @ '' || hasIPAddressesInExcludedSubtrees=''
                 @ fmt_bool hasIPAddressesInExcludedSubtrees
                 @ '')'' @ (if b then [] else '')'')
           \<and> sublist (''hasDNSName='' @ fmt_bool hasDNSName) rationale
           \<and> sublist (''hasIPAddressInPermittedSubtrees=''
                        @ fmt_bool hasIPAddressInPermittedSubtrees) rationale
           \<and> sublist (''hasIPAddressesInExcludedSubtrees=''
                        @ fmt_bool hasIPAddressesInExcludedSubtrees) rationale"
proof -
  define pre where "pre b = (if b then ''Is constrained: '' else ''Is not constrained: '')"
    for b :: bool
  define post where "post b = (if b then [] else '')'')" for b :: bool
  define b where "b \<longleftrightarrow> hasDNSName
      \<and> (hasIPAddressInPermittedSubtrees \<or> hasIPAddressesInExcludedSubtrees)"
  define rationale where "rationale =
      pre b @ ''hasDNSName='' @ fmt_bool hasDNSName
        @ '' && (hasIPAddressInPermittedSubtrees='' @ fmt_bool hasIPAddressInPermittedSubtrees
        @ '' || hasIPAddressesInExcludedSubtrees='' @ fmt_bool hasIPAddressesInExcludedSubtrees
        @ '')'' @ post b"
  have elig: "ExtKeyUsageServerAuth \<in> set (ExtKeyUsage cert)
         \<or> (Before (NotBefore cert) nsSGCCutoff
              \<and> ExtKeyUsageNetscapeServerGatedCrypto \<in> set (ExtKeyUsage cert))"
    using assms(6) by blast
  have run: "DetermineIfTechnicallyConstrained cert = Inr (b, rationale)"
    unfolding DITC_eq using assms(4,5) elig
    by (simp del: list_ex_iff
          add: b_def rationale_def pre_def post_def constraintsText_def hasDNSName_def
            hasIPAddressInPermittedSubtrees_def hasIPAddressesInExcludedSubtrees_def)
  have s1: "sublist (''hasDNSName='' @ fmt_bool hasDNSName) rationale"
    unfolding rationale_def sublist_def
    by (rule exI [of _ "pre b"], rule exI) (simp only: append_assoc)
  have s2: "sublist (''hasIPAddressInPermittedSubtrees=''
              @ fmt_bool hasIPAddressInPermittedSubtrees) rationale"
    unfolding rationale_def sublist_def
    by (rule exI [of _ "pre b @ ''hasDNSName='' @ fmt_bool hasDNSName @ '' && (''"], rule exI)
       (simp only: append_assoc append_Cons append_Nil)
  have s3: "sublist (''hasIPAddressesInExcludedSubtrees=''
              @ fmt_bool hasIPAddressesInExcludedSubtrees) rationale"
    unfolding rationale_def sublist_def
    by (rule exI [of _ "pre b @ ''hasDNSName='' @ fmt_bool hasDNSName
            @ '' && (hasIPAddressInPermittedSubtrees=''
            @ fmt_bool hasIPAddressInPermittedSubtrees @ '' || ''"], rule exI)
       (simp only: append_assoc append_Cons append_Nil)
  have form: "rationale =
               (if b then ''Is constrained: '' else ''Is not constrained: '')
                 @ ''hasDNSName='' @ fmt_bool hasDNSName
                 @ '' && (hasIPAddressInPermittedSubtrees=''
                 @ fmt_bool hasIPAddressInPermittedSubtrees
                 @ '' || hasIPAddressesInExcludedSubtrees=''
                 @ fmt_bool hasIPAddressesInExcludedSubtrees
                 @ '')'' @ (if b then [] else '')'')"
    by (simp only: rationale_def pre_def post_def)
  from run b_def form s1 s2 s3 show ?thesis by blast
qed

theorem rationale_names_constraint_booleans_witness:
  "ExtKeyUsage cert2017 \<noteq> []
   \<and> ExtKeyUsageAny \<notin> set (ExtKeyUsage cert2017)
   \<and> (ExtKeyUsageServerAuth \<in> set (ExtKeyUsage cert2017)
        \<or> (ExtKeyUsageNetscapeServerGatedCrypto \<in> set (ExtKeyUsage cert2017)
             \<and> Before (NotBefore cert2017) nsSGCCutoff))
   \<and> DetermineIfTechnicallyConstrained cert2017 =
       Inr (True, ''Is constrained: hasDNSName=true && (hasIPAddressInPermittedSubtrees=false || hasIPAddressesInExcludedSubtrees=true)'')
   \<and> sublist ''hasDNSName=true''
        ''Is constrained: hasDNSName=true && (hasIPAddressInPermittedSubtrees=false || hasIPAddressesInExcludedSubtrees=true)''
   \<and> sublist ''hasIPAddressInPermittedSubtrees=false''
        ''Is constrained: hasDNSName=true && (hasIPAddressInPermittedSubtrees=false || hasIPAddressesInExcludedSubtrees=true)''
   \<and> sublist ''hasIPAddressesInExcludedSubtrees=true''
        ''Is constrained: hasDNSName=true && (hasIPAddressInPermittedSubtrees=false || hasIPAddressesInExcludedSubtrees=true)''"
proof -
  have h1: "ExtKeyUsage cert2017 \<noteq> []"
    by (simp add: cert2017_fields)
  have h2: "ExtKeyUsageAny \<notin> set (ExtKeyUsage cert2017)"
    using usage_values usage_consts_distinct by (simp add: cert2017_fields)
  have h3: "ExtKeyUsageServerAuth \<in> set (ExtKeyUsage cert2017)
        \<or> (ExtKeyUsageNetscapeServerGatedCrypto \<in> set (ExtKeyUsage cert2017)
             \<and> Before (NotBefore cert2017) nsSGCCutoff)"
    by (simp add: cert2017_fields)
  from rationale_names_constraint_booleans [OF h1 h2 h3]
  obtain b rationale where
    run: "DetermineIfTechnicallyConstrained cert2017 = Inr (b, rationale)"
    and b: "b = ((PermittedDNSDomains cert2017 \<noteq> [] \<or> ExcludedDNSDomains cert2017 \<noteq> [])
                  \<and> (PermittedIPAddresses cert2017 \<noteq> []
                        \<or> (list_ex fullRangeIPv4 (ExcludedIPAddresses cert2017)
                             \<and> list_ex fullRangeIPv6 (ExcludedIPAddresses cert2017))))"
    and r: "rationale =
               (if b then ''Is constrained: '' else ''Is not constrained: '')
                 @ ''hasDNSName=''
                 @ fmt_bool (PermittedDNSDomains cert2017 \<noteq> [] \<or> ExcludedDNSDomains cert2017 \<noteq> [])
                 @ '' && (hasIPAddressInPermittedSubtrees=''
                 @ fmt_bool (PermittedIPAddresses cert2017 \<noteq> [])
                 @ '' || hasIPAddressesInExcludedSubtrees=''
                 @ fmt_bool (list_ex fullRangeIPv4 (ExcludedIPAddresses cert2017)
                             \<and> list_ex fullRangeIPv6 (ExcludedIPAddresses cert2017))
                 @ '')'' @ (if b then [] else '')'')"
    and s1: "sublist (''hasDNSName=''
                 @ fmt_bool (PermittedDNSDomains cert2017 \<noteq> [] \<or> ExcludedDNSDomains cert2017 \<noteq> []))
               rationale"
    and s2: "sublist (''hasIPAddressInPermittedSubtrees=''
                        @ fmt_bool (PermittedIPAddresses cert2017 \<noteq> [])) rationale"
    and s3: "sublist (''hasIPAddressesInExcludedSubtrees=''
                 @ fmt_bool (list_ex fullRangeIPv4 (ExcludedIPAddresses cert2017)
                             \<and> list_ex fullRangeIPv6 (ExcludedIPAddresses cert2017))) rationale"
    by blast
  have bT: "b = True"
    using b by (simp add: cert2017_fields fullRange_zero_nets)
  have rT: "rationale = ''Is constrained: hasDNSName=true && (hasIPAddressInPermittedSubtrees=false || hasIPAddressesInExcludedSubtrees=true)''"
    using r bT by (simp add: cert2017_fields fullRange_zero_nets fmt_bool_def)
  have t1: "sublist ''hasDNSName=true'' rationale"
    using s1 by (simp add: cert2017_fields fmt_bool_def)
  have t2: "sublist ''hasIPAddressInPermittedSubtrees=false'' rationale"
    using s2 by (simp add: cert2017_fields fmt_bool_def)
  have t3: "sublist ''hasIPAddressesInExcludedSubtrees=true'' rationale"
    using s3 by (simp add: cert2017_fields fmt_bool_def fullRange_zero_nets)
  from h1 h2 h3 run bT t1 t2 t3 show ?thesis
    unfolding rT by blast
qed



text \<open>
  C9, as stated, says that the function of \<^verbatim>\<open>gx509/technicalconstraints.go\<close> and the
  function of \<^verbatim>\<open>gx509.go\<close> return the same boolean for every certificate. They differ on
  the 2017 certificate whose excluded entry for \<^verbatim>\<open>0.0.0.0\<close> has an empty mask: the first
  function requires four mask bytes and answers false, the second finds no non-zero byte
  in the empty mask and answers true.
\<close>

theorem variants_differ_counterexample:
  "DetermineIfTechnicallyConstrained
     (cert2017\<lparr>ExcludedIPAddresses := [\<lparr>IP = [0, 0, 0, 0], Mask = []\<rparr>, zeroIPv6Net]\<rparr>)
     = Inr (False, ''Is not constrained: hasDNSName=true && (hasIPAddressInPermittedSubtrees=false || hasIPAddressesInExcludedSubtrees=false))'')
   \<and> DetermineIfTechnicallyConstrained_unchecked
       (cert2017\<lparr>ExcludedIPAddresses := [\<lparr>IP = [0, 0, 0, 0], Mask = []\<rparr>, zeroIPv6Net]\<rparr>)
     = (True, ''Is constrained'')"
proof -
  have v4: "IP_Equal [0, 0, 0, 0] IPv4zero" "\<not> IP_Equal [0, 0, 0, 0] IPv6zero"
    by (simp_all add: IP_Equal_def IPv4zero_def IPv6zero_def v4InV6Prefix_def)
  have v6: "IP_Equal IPv6zero IPv6zero" "\<not> IP_Equal IPv6zero IPv4zero"
    by (simp_all add: IP_Equal_def IPv4zero_def IPv6zero_def v4InV6Prefix_def)
  have z: "isAllZeros_unchecked IPv6zero"
    by (simp add: IPv6zero_def)
  have not4: "\<not> fullRangeIPv4 \<lparr>IP = [0, 0, 0, 0], Mask = []\<rparr>"
    "\<not> fullRangeIPv6 \<lparr>IP = [0, 0, 0, 0], Mask = []\<rparr>"
    by (simp_all add: fullRangeIPv4_def fullRangeIPv6_def)
  have run_checked: "DetermineIfTechnicallyConstrained
     (cert2017\<lparr>ExcludedIPAddresses := [\<lparr>IP = [0, 0, 0, 0], Mask = []\<rparr>, zeroIPv6Net]\<rparr>)
     = Inr (False, ''Is not constrained: hasDNSName=true && (hasIPAddressInPermittedSubtrees=false || hasIPAddressesInExcludedSubtrees=false))'')"
    unfolding DITC_eq
    using usage_values usage_consts_distinct
    by (simp add: cert2017_fields fullRange_zero_nets not4 constraintsText_def fmt_bool_def)
  have run_unchecked: "DetermineIfTechnicallyConstrained_unchecked
       (cert2017\<lparr>ExcludedIPAddresses := [\<lparr>IP = [0, 0, 0, 0], Mask = []\<rparr>, zeroIPv6Net]\<rparr>)
     = (True, ''Is constrained'')"
    using usage_values usage_consts_distinct
    by (simp add: DetermineIfTechnicallyConstrained_unchecked_def Parse_cutoff usage_loop_eq
          cert2017_fields Before_2017 zeroIPv6Net_def v4 v6 z)
  from run_checked run_unchecked show ?thesis by (rule conjI)
qed

text \<open>
  C9, amended. The two functions return the same boolean for every certificate in which
  each excluded entry whose address equals the IPv4 zero address has a mask of exactly
  4 bytes and each excluded entry whose address equals the IPv6 zero address has a mask of
  exactly 16 bytes.
\<close>

theorem variants_agree_on_family_length_masks:
  assumes "list_all (\<lambda>cidr. (IP_Equal (IP cidr) IPv4zero \<longrightarrow> length (Mask cidr) = 4)
                       \<and> (IP_Equal (IP cidr) IPv6zero \<longrightarrow> length (Mask cidr) = 16))
             (ExcludedIPAddresses cert)"
  shows "\<exists>b rationale rationale'.
           DetermineIfTechnicallyConstrained cert = Inr (b, rationale)
           \<and> DetermineIfTechnicallyConstrained_unchecked cert = (b, rationale')"
proof -
  obtain r where c: "DetermineIfTechnicallyConstrained cert =
      Inr (fst (DetermineIfTechnicallyConstrained_unchecked cert), r)"
    using DITC_fst [of cert]
    unfolding DITC_unchecked_fst family_length_masks_agree [OF assms] by blast
  have "DetermineIfTechnicallyConstrained_unchecked cert
      = (fst (DetermineIfTechnicallyConstrained_unchecked cert),
         snd (DetermineIfTechnicallyConstrained_unchecked cert))" by simp
  with c show ?thesis by blast
qed

theorem variants_agree_on_family_length_masks_witness:
  "list_all (\<lambda>cidr. (IP_Equal (IP cidr) IPv4zero \<longrightarrow> length (Mask cidr) = 4)
                       \<and> (IP_Equal (IP cidr) IPv6zero \<longrightarrow> length (Mask cidr) = 16))
             (ExcludedIPAddresses cert2017)
   \<and> (\<exists>b rationale rationale'.
           DetermineIfTechnicallyConstrained cert2017 = Inr (b, rationale)
           \<and> DetermineIfTechnicallyConstrained_unchecked cert2017 = (b, rationale'))"
proof -
  have h: "list_all (\<lambda>cidr. (IP_Equal (IP cidr) IPv4zero \<longrightarrow> length (Mask cidr) = 4)
                       \<and> (IP_Equal (IP cidr) IPv6zero \<longrightarrow> length (Mask cidr) = 16))
             (ExcludedIPAddresses cert2017)"
    by (simp add: cert2017_fields zeroIPv4Net_def zeroIPv6Net_def IP_Equal_def IPv4zero_def
          IPv6zero_def v4InV6Prefix_def)
  show ?thesis
    using h variants_agree_on_family_length_masks [OF h] by (rule conjI)
qed

text \<open>
  C10. The pair of boolean and rationale the function returns does not change when the
  usage list and the list of excluded IP subtrees are replaced by permutations of
  themselves.
\<close>

theorem permutation_invariant:
  assumes "mset usages = mset (ExtKeyUsage cert)"
    and "mset excluded = mset (ExcludedIPAddresses cert)"
  shows "DetermineIfTechnicallyConstrained
           (cert\<lparr>ExtKeyUsage := usages, ExcludedIPAddresses := excluded\<rparr>)
         = DetermineIfTechnicallyConstrained cert"
proof -
  have u: "set usages = set (ExtKeyUsage cert)"
    using assms(1) by (rule mset_eq_setD)
  have e: "set excluded = set (ExcludedIPAddresses cert)"
    using assms(2) by (rule mset_eq_setD)
  have n: "usages = [] \<longleftrightarrow> ExtKeyUsage cert = []"
    using assms(1) by (metis mset_zero_iff)
  show ?thesis
    by (rule DITC_cong) (simp_all add: u e n)
qed

theorem permutation_invariant_witness:
  "mset [ExtKeyUsageServerAuth, ExtKeyUsageClientAuth] = mset (ExtKeyUsage cert2017)
   \<and> mset [zeroIPv6Net, zeroIPv4Net] = mset (ExcludedIPAddresses cert2017)
   \<and> DetermineIfTechnicallyConstrained
        (cert2017\<lparr>ExtKeyUsage := [ExtKeyUsageServerAuth, ExtKeyUsageClientAuth],
                  ExcludedIPAddresses := [zeroIPv6Net, zeroIPv4Net]\<rparr>)
     = DetermineIfTechnicallyConstrained cert2017"
proof -
  have h1: "mset [ExtKeyUsageServerAuth, ExtKeyUsageClientAuth] = mset (ExtKeyUsage cert2017)"
    by (simp add: cert2017_fields)
  have h2: "mset [zeroIPv6Net, zeroIPv4Net] = mset (ExcludedIPAddresses cert2017)"
    by (simp add: cert2017_fields)
  show ?thesis
    using h1 h2 permutation_invariant [OF h1 h2] by blast
qed

end
